theory Spec2Isabelle
  imports Complex_Main
begin

section \<open>Relative volatility calculator of \<open>perform.py\<close>\<close>

text \<open>
  The development embeds \<open>calculate_relative_volatility\<close> of \<open>src/perform.py\<close>
  (lines 587 to 742) with its nested helpers \<open>extract_prices\<close> and
  \<open>get_historical_price_data\<close>.

  Python floats are modelled by \<^typ>\<open>real\<close>: rounding, infinities and NaN are left out.
  Everything the properties below depend on is control flow and exact algebra
  (\<open>x / x = 1\<close>, a deviation of equal numbers is \<open>0\<close>), which the reals and
  the floats share. Exceptions are values of the type \<open>exn\<close>, all of them instances of
  \<open>Exception\<close>; a computation that may raise returns \<open>exn + 'a\<close> with \<open>Inl\<close> for the
  raised exception, and every \<open>try\<close>/\<open>except\<close> of the source is a case distinction on
  that result. The same lines are embedded a second time for a historical-data query that
  may also raise a \<open>KeyboardInterrupt\<close> or a \<open>SystemExit\<close>, which no handler of the
  source catches.
\<close>

subsection \<open>Python values and exceptions\<close>

datatype exn =
    ValueError
  | TypeError
  | OverflowError
  | ZeroDivisionError
  | StatisticsError
  | DatabaseError

text \<open>
  The values that a history entry can be: \<open>None\<close>, a bool, an int, a float, a string,
  a list, a tuple, or a dict with string keys (an association list, the first binding of a
  key being the one that counts).
\<close>

datatype pyval =
    PNone
  | PBool bool
  | PInt int
  | PFloat real
  | PStr string
  | PList "pyval list"
  | PTuple "pyval list"
  | PDict "(string \<times> pyval) list"

text \<open>
  \<open>float(s)\<close> on a string is Python's own parser; it is a parameter of the model:
  \<open>None\<close> where \<open>float\<close> raises \<open>ValueError\<close>.
\<close>

type_synonym str_parser = "string \<Rightarrow> real option"

text \<open>
  \<open>float(n)\<close> on an int raises \<open>OverflowError\<close> when \<open>n\<close> rounds to a
  magnitude beyond the largest double, \<open>2 ^ 1024 - 2 ^ 971\<close>.
\<close>

definition int_too_large :: "int \<Rightarrow> bool" where
  "int_too_large n \<longleftrightarrow> 2 ^ 1024 - 2 ^ 970 \<le> \<bar>n\<bar>"

fun py_float :: "str_parser \<Rightarrow> pyval \<Rightarrow> exn + real" where
  "py_float P (PFloat r) = Inr r"
| "py_float P (PInt n) = (if int_too_large n then Inl OverflowError else Inr (of_int n))"
| "py_float P (PBool b) = Inr (if b then 1 else 0)"
| "py_float P (PStr s) = (case P s of None \<Rightarrow> Inl ValueError | Some r \<Rightarrow> Inr r)"
| "py_float P PNone = Inl TypeError"
| "py_float P (PList vs) = Inl TypeError"
| "py_float P (PTuple vs) = Inl TypeError"
| "py_float P (PDict kvs) = Inl TypeError"

subsection \<open>The lookback window\<close>

text \<open>Lines 592 to 597: the \<open>if\<close>/\<open>elif\<close>/\<open>else\<close> on the timeframe.\<close>

definition hours_for :: "string \<Rightarrow> nat" where
  "hours_for timeframe =
     (if timeframe = ''1h'' then 24
      else if timeframe = ''24h'' then 7 * 24
      else 30 * 24)"

subsection \<open>\<open>extract_prices\<close>\<close>

text \<open>
  The inner \<open>try: price = float(v) except (ValueError, TypeError): pass\<close> of lines 616 to
  619 and 622 to 625: the two named exceptions leave \<open>price\<close> at \<open>None\<close>, any other
  one goes on to the enclosing handler.
\<close>

definition guarded_float :: "str_parser \<Rightarrow> pyval \<Rightarrow> exn + real option" where
  "guarded_float P v =
     (case py_float P v of
        Inr r \<Rightarrow> Inr (Some r)
      | Inl e \<Rightarrow> if e = ValueError \<or> e = TypeError then Inr None else Inl e)"

text \<open>The value of \<open>price\<close> after the \<open>if\<close>/\<open>elif\<close> chain of lines 614 to 627.\<close>

fun first_price :: "str_parser \<Rightarrow> pyval list \<Rightarrow> exn + real option" where
  "first_price P [] = Inr None"
| "first_price P (v # vs) = (case v of PNone \<Rightarrow> Inr None | _ \<Rightarrow> guarded_float P v)"

fun entry_price :: "str_parser \<Rightarrow> pyval \<Rightarrow> exn + real option" where
  "entry_price P (PDict kvs) =
     (case map_of kvs ''price'' of
        None \<Rightarrow> Inr None
      | Some v \<Rightarrow> (case v of PNone \<Rightarrow> Inr None | _ \<Rightarrow> guarded_float P v))"
| "entry_price P (PList vs) = first_price P vs"
| "entry_price P (PTuple vs) = first_price P vs"
| "entry_price P (PInt n) = map_sum id Some (py_float P (PInt n))"
| "entry_price P (PFloat r) = map_sum id Some (py_float P (PFloat r))"
| "entry_price P (PBool b) = map_sum id Some (py_float P (PBool b))"
| "entry_price P PNone = Inr None"
| "entry_price P (PStr s) = Inr None"

text \<open>
  One pass of the loop body, lines 609 to 634: what the entry adds to \<open>prices\<close>. An
  exception escaping the chain is caught by \<open>except Exception: continue\<close>.
\<close>

definition extract_entry :: "str_parser \<Rightarrow> pyval \<Rightarrow> real list" where
  "extract_entry P entry =
     (case entry of
        PNone \<Rightarrow> []
      | _ \<Rightarrow> (case entry_price P entry of
                Inl e \<Rightarrow> []
              | Inr None \<Rightarrow> []
              | Inr (Some price) \<Rightarrow> if price > 0 then [price] else []))"

fun extract_loop :: "str_parser \<Rightarrow> pyval list \<Rightarrow> real list" where
  "extract_loop P [] = []"
| "extract_loop P (entry # rest) = extract_entry P entry @ extract_loop P rest"

text \<open>
  Lines 600 to 637. \<open>None\<close>, a string and a value without \<open>__iter__\<close> give the empty
  list; iterating a dict yields its keys.
\<close>

fun extract_prices :: "str_parser \<Rightarrow> pyval \<Rightarrow> real list" where
  "extract_prices P PNone = []"
| "extract_prices P (PStr s) = []"
| "extract_prices P (PBool b) = []"
| "extract_prices P (PInt n) = []"
| "extract_prices P (PFloat r) = []"
| "extract_prices P (PList entries) = extract_loop P entries"
| "extract_prices P (PTuple entries) = extract_loop P entries"
| "extract_prices P (PDict kvs) = extract_loop P (map (\<lambda>kv. PStr (fst kv)) kvs)"

subsection \<open>\<open>get_historical_price_data\<close>\<close>

text \<open>
  The SQLite query of lines 641 to 656 is the parameter \<open>db\<close>: for a token and a number of
  hours it either raises an instance of \<open>Exception\<close> or returns the \<open>price\<close> column of
  the rows found (at most 50, oldest first).
  Lines 658 to 664: no rows and any exception both give \<open>None\<close>.
\<close>

type_synonym database = "string \<Rightarrow> nat \<Rightarrow> exn + pyval list"

definition get_historical_price_data :: "database \<Rightarrow> string \<Rightarrow> nat \<Rightarrow> string \<Rightarrow> pyval" where
  "get_historical_price_data db token_symbol hours_back tf =
     (case db token_symbol hours_back of
        Inl e \<Rightarrow> PNone
      | Inr results \<Rightarrow>
          if results = [] then PNone
          else PList (map (\<lambda>price. PDict [(''price'', price)]) results))"

subsection \<open>Percentage changes\<close>

definition py_div :: "real \<Rightarrow> real \<Rightarrow> exn + real" where
  "py_div a b = (if b = 0 then Inl ZeroDivisionError else Inr (a / b))"

text \<open>
  The body of the change loop under its \<open>try\<close> (lines 677 to 680): \<open>Inr None\<close> when the
  guard on the prior price fails, \<open>Inl\<close> when the division raises.
\<close>

definition change_step :: "real \<Rightarrow> real \<Rightarrow> exn + real option" where
  "change_step prior cur =
     (if prior > 0
      then (case py_div cur prior of
              Inl e \<Rightarrow> Inl e
            | Inr q \<Rightarrow> Inr (Some ((q - 1) * 100)))
      else Inr None)"

text \<open>
  The loop of lines 675 to 682, with the handler
  \<open>except (ZeroDivisionError, OverflowError): continue\<close>.
\<close>

fun price_changes :: "real list \<Rightarrow> exn + real list" where
  "price_changes (prior # cur # rest) =
     (case change_step prior cur of
        Inl e \<Rightarrow>
          if e = ZeroDivisionError \<or> e = OverflowError then price_changes (cur # rest)
          else Inl e
      | Inr None \<Rightarrow> price_changes (cur # rest)
      | Inr (Some c) \<Rightarrow>
          (case price_changes (cur # rest) of
             Inl e \<Rightarrow> Inl e
           | Inr cs \<Rightarrow> Inr (c # cs)))"
| "price_changes [p] = Inr []"
| "price_changes [] = Inr []"

text \<open>
  The indices \<open>i\<close> of \<open>range(1, len(prices))\<close> at which the guard
  \<open>prices[i-1] > 0\<close> holds, and the change computed there.
\<close>

definition computed_steps :: "real list \<Rightarrow> nat list" where
  "computed_steps prices = filter (\<lambda>i. prices ! (i - 1) > 0) [1 ..< length prices]"

definition pct_change :: "real list \<Rightarrow> nat \<Rightarrow> real" where
  "pct_change prices i = (prices ! i / prices ! (i - 1) - 1) * 100"

subsection \<open>\<open>statistics.mean\<close> and \<open>statistics.stdev\<close>\<close>

definition mean :: "real list \<Rightarrow> exn + real" where
  "mean xs = (if xs = [] then Inl StatisticsError else Inr (sum_list xs / real (length xs)))"

definition sum_sq_dev :: "real list \<Rightarrow> real" where
  "sum_sq_dev xs =
     (let m = sum_list xs / real (length xs) in sum_list (map (\<lambda>x. (x - m)\<^sup>2) xs))"

definition stdev :: "real list \<Rightarrow> exn + real" where
  "stdev xs =
     (if length xs < 2 then Inl StatisticsError
      else Inr (sqrt (sum_sq_dev xs / real (length xs - 1))))"

subsection \<open>\<open>calculate_relative_volatility\<close>\<close>

text \<open>
  The body of the \<open>try\<close> of the reference loop, lines 701 to 721: \<open>Inr (Some v)\<close> when
  \<open>v\<close> is appended to \<open>market_volatilities\<close>, \<open>Inr None\<close> on a \<open>continue\<close>.
\<close>

definition ref_volatility ::
  "str_parser \<Rightarrow> database \<Rightarrow> nat \<Rightarrow> string \<Rightarrow> string \<Rightarrow> exn + real option" where
  "ref_volatility P db hours timeframe ref_token =
     (let ref_prices = extract_prices P (get_historical_price_data db ref_token hours timeframe)
      in if length ref_prices < 5 then Inr None
         else (case price_changes ref_prices of
                 Inl e \<Rightarrow> Inl e
               | Inr ref_changes \<Rightarrow>
                   if length ref_changes \<ge> 2
                   then (case stdev ref_changes of
                           Inl e \<Rightarrow> if e = StatisticsError then Inr None else Inl e
                         | Inr v \<Rightarrow> Inr (Some v))
                   else Inr None))"

text \<open>
  The loop of lines 696 to 724. Only membership of \<open>market_data\<close> is used; the handler
  \<open>except Exception: continue\<close> drops a reference token whose body raised.
\<close>

fun market_volatilities ::
  "str_parser \<Rightarrow> database \<Rightarrow> nat \<Rightarrow> string \<Rightarrow> (string \<rightharpoonup> 'a) \<Rightarrow> string list \<Rightarrow> real list" where
  "market_volatilities P db hours timeframe market_data [] = []"
| "market_volatilities P db hours timeframe market_data (ref_token # rest) =
     (if market_data ref_token = None then []
      else (case ref_volatility P db hours timeframe ref_token of
              Inl e \<Rightarrow> []
            | Inr None \<Rightarrow> []
            | Inr (Some v) \<Rightarrow> [v]))
     @ market_volatilities P db hours timeframe market_data rest"

text \<open>The body of the outer \<open>try\<close>, lines 591 to 738.\<close>

definition relative_volatility_body ::
  "str_parser \<Rightarrow> database \<Rightarrow> string \<Rightarrow> string list \<Rightarrow> (string \<rightharpoonup> 'a) \<Rightarrow> string
     \<Rightarrow> exn + real option" where
  "relative_volatility_body P db token reference_tokens market_data timeframe =
     (let hours = hours_for timeframe;
          token_prices = extract_prices P (get_historical_price_data db token hours timeframe)
      in if length token_prices < 5 then Inr None
         else (case price_changes token_prices of
                 Inl e \<Rightarrow> Inl e
               | Inr token_changes \<Rightarrow>
                   if length token_changes < 2 then Inr None
                   else (case stdev token_changes of
                           Inl e \<Rightarrow> if e = StatisticsError then Inr None else Inl e
                         | Inr token_volatility \<Rightarrow>
                             (let mvs = market_volatilities P db hours timeframe market_data
                                          reference_tokens
                              in if mvs = [] then Inr None
                                 else (case mean mvs of
                                         Inl e \<Rightarrow> Inl e
                                       | Inr market_avg_volatility \<Rightarrow>
                                           if market_avg_volatility > 0
                                           then Inr (Some (token_volatility / market_avg_volatility))
                                           else Inr None)))))"

text \<open>
  Lines 590 and 740 to 742: \<open>except Exception\<close> prints the error and returns \<open>None\<close>.
  The result is \<open>Inl e\<close> if the call raises \<open>e\<close>, \<open>Inr None\<close> for the no-result and
  \<open>Inr (Some r)\<close> for the ratio \<open>r\<close>.
\<close>

definition calculate_relative_volatility ::
  "str_parser \<Rightarrow> database \<Rightarrow> string \<Rightarrow> string list \<Rightarrow> (string \<rightharpoonup> 'a) \<Rightarrow> string
     \<Rightarrow> exn + real option" where
  "calculate_relative_volatility P db token reference_tokens market_data timeframe =
     (case relative_volatility_body P db token reference_tokens market_data timeframe of
        Inl e \<Rightarrow> Inr None
      | Inr r \<Rightarrow> Inr r)"

subsection \<open>Exceptions that are not instances of \<open>Exception\<close>\<close>

text \<open>
  The values of \<open>exn\<close> are instances of \<open>Exception\<close>, and in the definitions above the
  historical-data query raises nothing else. The three handlers of lines 663, 723 and 740
  are \<open>except Exception\<close>: they do not catch a \<open>KeyboardInterrupt\<close> or a
  \<open>SystemExit\<close>, which derive from \<open>BaseException\<close> only. The definitions of this
  subsection embed the same lines for a query that may raise those as well; a value of
  \<open>raised\<close> is what a \<open>raise\<close> carries.
\<close>

datatype raised = Exception exn | KeyboardInterrupt | SystemExit

text \<open>Whether a clause \<open>except Exception\<close> catches it.\<close>

fun caught :: "raised \<Rightarrow> bool" where
  "caught (Exception e) = True"
| "caught KeyboardInterrupt = False"
| "caught SystemExit = False"

type_synonym lookup = "string \<Rightarrow> nat \<Rightarrow> raised + pyval list"

text \<open>Lines 639 to 664, with the handler of line 663.\<close>

definition get_historical_price_data_full :: "lookup \<Rightarrow> string \<Rightarrow> nat \<Rightarrow> string \<Rightarrow> raised + pyval" where
  "get_historical_price_data_full lk token_symbol hours_back tf =
     (case lk token_symbol hours_back of
        Inl x \<Rightarrow> if caught x then Inr PNone else Inl x
      | Inr results \<Rightarrow>
          Inr (if results = [] then PNone
               else PList (map (\<lambda>price. PDict [(''price'', price)]) results)))"

text \<open>Lines 701 to 721, the body of the \<open>try\<close> of the reference loop.\<close>

definition ref_volatility_full ::
  "str_parser \<Rightarrow> lookup \<Rightarrow> nat \<Rightarrow> string \<Rightarrow> string \<Rightarrow> raised + real option" where
  "ref_volatility_full P lk hours timeframe ref_token =
     (case get_historical_price_data_full lk ref_token hours timeframe of
        Inl x \<Rightarrow> Inl x
      | Inr ref_history \<Rightarrow>
          (let ref_prices = extract_prices P ref_history
           in if length ref_prices < 5 then Inr None
              else (case price_changes ref_prices of
                      Inl e \<Rightarrow> Inl (Exception e)
                    | Inr ref_changes \<Rightarrow>
                        if length ref_changes \<ge> 2
                        then (case stdev ref_changes of
                                Inl e \<Rightarrow> if e = StatisticsError then Inr None
                                         else Inl (Exception e)
                              | Inr v \<Rightarrow> Inr (Some v))
                        else Inr None)))"

text \<open>
  The loop of lines 696 to 724: the handler of line 723 goes on to the next reference
  token only for what \<open>except Exception\<close> catches; anything else ends the loop and the call.
\<close>

fun market_volatilities_full ::
  "str_parser \<Rightarrow> lookup \<Rightarrow> nat \<Rightarrow> string \<Rightarrow> (string \<rightharpoonup> 'a) \<Rightarrow> string list
     \<Rightarrow> raised + real list" where
  "market_volatilities_full P lk hours timeframe market_data [] = Inr []"
| "market_volatilities_full P lk hours timeframe market_data (ref_token # rest) =
     (if market_data ref_token = None
      then market_volatilities_full P lk hours timeframe market_data rest
      else (case ref_volatility_full P lk hours timeframe ref_token of
              Inl x \<Rightarrow>
                if caught x then market_volatilities_full P lk hours timeframe market_data rest
                else Inl x
            | Inr None \<Rightarrow> market_volatilities_full P lk hours timeframe market_data rest
            | Inr (Some v) \<Rightarrow>
                (case market_volatilities_full P lk hours timeframe market_data rest of
                   Inl x \<Rightarrow> Inl x
                 | Inr vs \<Rightarrow> Inr (v # vs))))"

text \<open>The body of the outer \<open>try\<close>, lines 591 to 738.\<close>

definition relative_volatility_body_full ::
  "str_parser \<Rightarrow> lookup \<Rightarrow> string \<Rightarrow> string list \<Rightarrow> (string \<rightharpoonup> 'a) \<Rightarrow> string
     \<Rightarrow> raised + real option" where
  "relative_volatility_body_full P lk token reference_tokens market_data timeframe =
     (let hours = hours_for timeframe
      in case get_historical_price_data_full lk token hours timeframe of
           Inl x \<Rightarrow> Inl x
         | Inr token_history \<Rightarrow>
             (let token_prices = extract_prices P token_history
              in if length token_prices < 5 then Inr None
                 else (case price_changes token_prices of
                         Inl e \<Rightarrow> Inl (Exception e)
                       | Inr token_changes \<Rightarrow>
                           if length token_changes < 2 then Inr None
                           else (case stdev token_changes of
                                   Inl e \<Rightarrow> if e = StatisticsError then Inr None
                                            else Inl (Exception e)
                                 | Inr token_volatility \<Rightarrow>
                                     (case market_volatilities_full P lk hours timeframe
                                             market_data reference_tokens of
                                        Inl x \<Rightarrow> Inl x
                                      | Inr mvs \<Rightarrow>
                                          if mvs = [] then Inr None
                                          else (case mean mvs of
                                                  Inl e \<Rightarrow> Inl (Exception e)
                                                | Inr market_avg_volatility \<Rightarrow>
                                                    if market_avg_volatility > 0
                                                    then Inr (Some (token_volatility
                                                                      / market_avg_volatility))
                                                    else Inr None))))))"

text \<open>
  Lines 590 and 740 to 742: the result is \<open>Inl x\<close> if the call raises \<open>x\<close> to its
  caller, \<open>Inr None\<close> for the no-result and \<open>Inr (Some r)\<close> for the ratio \<open>r\<close>.
\<close>

definition calculate_relative_volatility_full ::
  "str_parser \<Rightarrow> lookup \<Rightarrow> string \<Rightarrow> string list \<Rightarrow> (string \<rightharpoonup> 'a) \<Rightarrow> string
     \<Rightarrow> raised + real option" where
  "calculate_relative_volatility_full P lk token reference_tokens market_data timeframe =
     (case relative_volatility_body_full P lk token reference_tokens market_data timeframe of
        Inl x \<Rightarrow> if caught x then Inr None else Inl x
      | Inr r \<Rightarrow> Inr r)"

text \<open>A query that raises instances of \<open>Exception\<close> only, as a lookup.\<close>

definition only_exceptions :: "database \<Rightarrow> lookup" where
  "only_exceptions db token_symbol hours_back = map_sum Exception id (db token_symbol hours_back)"

subsection \<open>Price entries as the specification reads them\<close>

text \<open>
  The specification names three shapes of a price entry: a plain number, a key-value
  record exposing a \<open>price\<close> field, and a pair or tuple-like record whose first element
  is the price. \<open>carried entry\<close> is the value that such an entry offers as its price:
  the \<open>price\<close> field of a record (whatever its other fields), the first element of a
  list or tuple (whatever follows it), a plain number itself; \<open>None\<close> for an entry of no
  such shape or without that field or element.
\<close>

fun is_number :: "pyval \<Rightarrow> bool" where
  "is_number (PInt n) = True"
| "is_number (PFloat r) = True"
| "is_number (PBool b) = True"
| "is_number PNone = False"
| "is_number (PStr s) = False"
| "is_number (PList vs) = False"
| "is_number (PTuple vs) = False"
| "is_number (PDict kvs) = False"

fun carried :: "pyval \<Rightarrow> pyval option" where
  "carried (PDict kvs) = map_of kvs ''price''"
| "carried (PList vs) = (case vs of [] \<Rightarrow> None | v # rest \<Rightarrow> Some v)"
| "carried (PTuple vs) = (case vs of [] \<Rightarrow> None | v # rest \<Rightarrow> Some v)"
| "carried (PBool b) = Some (PBool b)"
| "carried (PInt n) = Some (PInt n)"
| "carried (PFloat r) = Some (PFloat r)"
| "carried PNone = None"
| "carried (PStr s) = None"

text \<open>
  The price that the specification lets an entry contribute: the carried value as a float,
  if it converts to one and is positive. An entry is unusable when its price is absent,
  not numeric after extraction, or at most 0.
\<close>

definition spec_price :: "str_parser \<Rightarrow> pyval \<Rightarrow> real option" where
  "spec_price P entry =
     (case carried entry of
        None \<Rightarrow> None
      | Some v \<Rightarrow> (case py_float P v of
                    Inl e \<Rightarrow> None
                  | Inr x \<Rightarrow> if 0 < x then Some x else None))"

definition unusable :: "str_parser \<Rightarrow> pyval \<Rightarrow> bool" where
  "unusable P entry =
     (case carried entry of
        None \<Rightarrow> True
      | Some v \<Rightarrow> (case py_float P v of Inl e \<Rightarrow> True | Inr x \<Rightarrow> x \<le> 0))"

subsection \<open>Concrete inputs\<close>

text \<open>
  Databases, a string parser and \<open>market_data\<close> dictionaries at which the properties
  below are evaluated. The example series is the one of line 540.
\<close>

definition no_parser :: str_parser where
  "no_parser s = None"

definition example_rows :: "pyval list" where
  "example_rows = [PFloat 100, PFloat 102, PFloat 98, PFloat 105, PFloat 103, PFloat 99,
                   PFloat 107, PFloat 104]"

definition example_db :: database where
  "example_db token_symbol hours_back = Inr example_rows"


definition constant_refs_db :: database where
  "constant_refs_db token_symbol hours_back =
     (if token_symbol = ''BTC'' then Inr example_rows
      else Inr [PFloat 100, PFloat 100, PFloat 100, PFloat 100, PFloat 100, PFloat 100,
                PFloat 100, PFloat 100])"

definition empty_refs_db :: database where
  "empty_refs_db token_symbol hours_back =
     (if token_symbol = ''BTC'' then Inr example_rows else Inr [])"

definition short_db :: database where
  "short_db token_symbol hours_back =
     (if token_symbol = ''BTC'' then Inr [PFloat 100, PFloat 102, PFloat 98, PFloat 105]
      else Inr example_rows)"

definition md_eth :: "string \<rightharpoonup> unit" where
  "md_eth = [''ETH'' \<mapsto> ()]"

definition md_none :: "string \<rightharpoonup> unit" where
  "md_none = Map.empty"





text \<open>
  Histories in the shapes of the repository's own test inputs (lines 357 to 385 and 468
  to 475): the mixed one, the same prices as plain numbers, and the invalid entries.
\<close>

definition mixed_history :: "pyval list" where
  "mixed_history =
     [PDict [(''price'', PFloat 100)],
      PList [PFloat (203 / 2), PInt 12346],
      PFloat (499 / 5),
      PDict [(''price'', PFloat (1021 / 10)), (''volume'', PInt 5000), (''market_cap'', PNone),
             (''timestamp'', PStr ''2024-01-01T00:00:00'')],
      PTuple [PInt 103, PStr ''2024-01-01T01:00:00'', PNone]]"

definition plain_history :: "pyval list" where
  "plain_history = [PFloat 100, PFloat (203 / 2), PFloat (499 / 5), PFloat (1021 / 10), PInt 103]"

definition invalid_history :: "pyval list" where
  "invalid_history =
     [PNone, PDict [(''price'', PNone)], PList [], PDict [(''invalid'', PInt 100)],
      PDict [(''price'', PStr ''n/a'')], PFloat 0, PList [PFloat (- 5), PInt 12345]]"

text \<open>
  A database whose rows have a zero as their third price, and the history that
  \<open>get_historical_price_data\<close> makes of them.
\<close>

definition zero_rows :: "pyval list" where
  "zero_rows = [PFloat 100, PFloat 102, PFloat 0, PFloat 105, PFloat 103, PFloat 99]"

definition zero_db :: database where
  "zero_db token_symbol hours_back = Inr zero_rows"

definition zero_history :: "pyval list" where
  "zero_history =
     [PDict [(''price'', PFloat 100)], PDict [(''price'', PFloat 102)],
      PDict [(''price'', PFloat 0)], PDict [(''price'', PFloat 105)],
      PDict [(''price'', PFloat 103)], PDict [(''price'', PFloat 99)]]"

section \<open>Auxiliary facts\<close>

subsection \<open>The change loop in closed form\<close>

lemma change_step_eq:
  "change_step prior cur = (if prior > 0 then Inr (Some ((cur / prior - 1) * 100)) else Inr None)"
  by (simp add: change_step_def py_div_def)

lemma upt_one_Cons: "[Suc 0 ..< Suc (Suc n)] = Suc 0 # map Suc [Suc 0 ..< Suc n]"
proof -
  have "[Suc 0 ..< Suc (Suc n)] = Suc 0 # [Suc (Suc 0) ..< Suc (Suc n)]"
    by (simp add: upt_conv_Cons del: upt_Suc)
  also have "[Suc (Suc 0) ..< Suc (Suc n)] = map Suc [Suc 0 ..< Suc n]"
    by (simp only: map_Suc_upt)
  finally show ?thesis .
qed

lemma computed_steps_Cons:
  "computed_steps (x # y # rest) =
     (if x > 0 then [1] else []) @ map Suc (computed_steps (y # rest))"
proof -
  have "filter (\<lambda>i. (x # y # rest) ! (i - 1) > 0) (map Suc [1 ..< Suc (length rest)])
      = map Suc (filter (\<lambda>i. (y # rest) ! (i - 1) > 0) [1 ..< Suc (length rest)])"
    unfolding filter_map comp_def
    by (rule arg_cong [where f = "map Suc"], rule filter_cong) (auto simp: nth_Cons')
  then show ?thesis
    unfolding computed_steps_def
    by (simp add: upt_one_Cons del: upt_Suc)
qed

lemma pct_change_Suc:
  "0 < i \<Longrightarrow> pct_change (x # ps) (Suc i) = pct_change ps i"
  by (cases i) (simp_all add: pct_change_def)

lemma computed_steps_pos: "i \<in> set (computed_steps ps) \<Longrightarrow> 0 < i"
  by (auto simp: computed_steps_def)

lemma pct_change_shift:
  "map (pct_change (x # ps)) (map Suc (computed_steps ps)) = map (pct_change ps) (computed_steps ps)"
  unfolding map_map comp_def
  by (rule map_cong) (simp_all add: pct_change_Suc computed_steps_pos)

lemma price_changes_eq:
  "price_changes ps = Inr (map (pct_change ps) (computed_steps ps))"
proof (induction ps rule: price_changes.induct)
  case (1 prior cur rest)
  note shift = pct_change_shift [of prior "cur # rest"]
  show ?case
  proof (cases "prior > 0")
    case True
    then have cs: "change_step prior cur = Inr (Some ((cur / prior - 1) * 100))"
      by (simp add: change_step_eq)
    have ih: "price_changes (cur # rest) = Inr (map (pct_change (cur # rest)) (computed_steps (cur # rest)))"
      using 1 cs by simp
    have "pct_change (prior # cur # rest) 1 = (cur / prior - 1) * 100"
      by (simp add: pct_change_def)
    with True cs ih shift show ?thesis
      by (simp add: computed_steps_Cons)
  next
    case False
    then have cs: "change_step prior cur = Inr None"
      by (simp add: change_step_eq)
    have ih: "price_changes (cur # rest) = Inr (map (pct_change (cur # rest)) (computed_steps (cur # rest)))"
      using 1 cs by simp
    with False cs shift show ?thesis
      by (simp add: computed_steps_Cons)
  qed
next
  case (2 p)
  show ?case by (simp add: computed_steps_def)
next
  case 3
  show ?case by (simp add: computed_steps_def)
qed

lemma computed_steps_all_pos:
  assumes "\<forall>p \<in> set ps. p > 0"
  shows "computed_steps ps = [1 ..< length ps]"
  unfolding computed_steps_def
proof (rule filter_True, safe)
  fix i assume "i \<in> set [1 ..< length ps]"
  then have "i - 1 < length ps" by auto
  then have "ps ! (i - 1) \<in> set ps" by (rule nth_mem)
  with assms show "0 < ps ! (i - 1)" by blast
qed

subsection \<open>Extracted prices are positive\<close>

lemma extract_entry_pos: "p \<in> set (extract_entry P e) \<Longrightarrow> p > 0"
  by (auto simp: extract_entry_def split: pyval.splits sum.splits option.splits if_splits)

lemma extract_loop_pos: "p \<in> set (extract_loop P es) \<Longrightarrow> p > 0"
  by (induction es) (auto dest: extract_entry_pos)

lemma extract_prices_pos: "p \<in> set (extract_prices P h) \<Longrightarrow> p > 0"
  by (cases h) (auto dest: extract_loop_pos)

subsection \<open>The standard deviation\<close>

lemma sum_sq_dev_pos:
  assumes "a \<in> set xs" "b \<in> set xs" "a \<noteq> b"
  shows "0 < sum_sq_dev xs"
proof -
  define m where "m = sum_list xs / real (length xs)"
  have nonneg: "\<forall>y \<in> set (map (\<lambda>x. (x - m)\<^sup>2) xs). 0 \<le> y" by auto
  from assms obtain c where c: "c \<in> set xs" "c \<noteq> m" by metis
  then have "(c - m)\<^sup>2 \<in> set (map (\<lambda>x. (x - m)\<^sup>2) xs)" "(c - m)\<^sup>2 \<noteq> 0" by auto
  then have "sum_list (map (\<lambda>x. (x - m)\<^sup>2) xs) \<noteq> 0"
    using nonneg sum_list_nonneg_eq_0_iff [of "map (\<lambda>x. (x - m)\<^sup>2) xs"] by blast
  moreover have "0 \<le> sum_list (map (\<lambda>x. (x - m)\<^sup>2) xs)"
    by (rule sum_list_nonneg) auto
  ultimately show ?thesis
    by (simp add: sum_sq_dev_def Let_def m_def)
qed

lemma stdev_pos:
  assumes "a \<in> set xs" "b \<in> set xs" "a \<noteq> b"
  shows "\<exists>v. stdev xs = Inr v \<and> 0 < v"
proof -
  have len: "2 \<le> length xs"
  proof (cases xs)
    case Nil
    with assms show ?thesis by simp
  next
    case (Cons x ys)
    with assms show ?thesis by (cases ys) auto
  qed
  with sum_sq_dev_pos [OF assms] show ?thesis
    by (simp add: stdev_def)
qed

subsection \<open>The list of reference volatilities\<close>

lemma market_volatilities_append:
  "market_volatilities P db h tf md (xs @ ys) =
     market_volatilities P db h tf md xs @ market_volatilities P db h tf md ys"
  by (induction xs) simp_all

lemma market_volatilities_filter:
  "market_volatilities P db h tf md refs =
     market_volatilities P db h tf md (filter (\<lambda>r. md r \<noteq> None) refs)"
  by (induction refs) simp_all

lemma ref_volatility_cong:
  "db r h = db' r h \<Longrightarrow> ref_volatility P db h tf r = ref_volatility P db' h tf r"
  by (simp add: ref_volatility_def get_historical_price_data_def)

lemma market_volatilities_cong:
  "\<forall>r \<in> set refs. md r \<noteq> None \<longrightarrow> db r h = db' r h \<Longrightarrow>
   market_volatilities P db h tf md refs = market_volatilities P db' h tf md refs"
proof (induction refs)
  case Nil
  show ?case by simp
next
  case (Cons r refs)
  then have ih: "market_volatilities P db h tf md refs = market_volatilities P db' h tf md refs"
    by simp
  show ?case
  proof (cases "md r = None")
    case True
    with ih show ?thesis by simp
  next
    case False
    with Cons.prems have "db r h = db' r h" by simp
    then have "ref_volatility P db h tf r = ref_volatility P db' h tf r"
      by (rule ref_volatility_cong)
    with ih show ?thesis by simp
  qed
qed

lemma market_volatilities_same:
  "\<forall>r \<in> set refs. md r \<noteq> None \<longrightarrow> ref_volatility P db h tf r = Inr (Some v) \<Longrightarrow>
   market_volatilities P db h tf md refs = replicate (length (filter (\<lambda>r. md r \<noteq> None) refs)) v"
  by (induction refs) simp_all

subsection \<open>Evaluation at the concrete inputs\<close>

lemmas eval_defs = get_historical_price_data_def extract_entry_def guarded_float_def
  example_rows_def int_too_large_def

lemma example_prices:
  "extract_prices P (get_historical_price_data example_db t h tf)
     = [100, 102, 98, 105, 103, 99, 107, 104]"
  by (simp add: eval_defs example_db_def)

lemma example_changes:
  "price_changes [100, 102, 98, 105, 103, 99, 107, 104]
     = Inr [2, - (200 / 51), 50 / 7, - (40 / 21), - (400 / 103), 800 / 99, - (300 / 107)]"
  by (simp add: change_step_def py_div_def)



lemma constant_changes:
  "price_changes [100, 100, 100, 100, 100, 100, 100, 100] = Inr [0, 0, 0, 0, 0, 0, 0]"
  by (simp add: change_step_def py_div_def)

lemma stdev_zeros: "stdev [0, 0, 0, 0, 0, 0, 0] = Inr 0"
  by (simp add: stdev_def sum_sq_dev_def)


subsection \<open>The result in closed form\<close>

text \<open>
  On extracted prices the change loop skips nothing, so that the result is a function of
  the extracted prices and of the list of reference volatilities.
\<close>

lemma changes_length:
  assumes "\<forall>p \<in> set ps. p > 0"
  shows "price_changes ps = Inr (map (pct_change ps) [1 ..< length ps])"
  using price_changes_eq [of ps] computed_steps_all_pos [OF assms] by simp

lemma extracted_changes:
  "price_changes (extract_prices P h) =
     Inr (map (pct_change (extract_prices P h)) [1 ..< length (extract_prices P h)])"
  by (rule changes_length) (simp add: extract_prices_pos)

lemma calc_eq:
  "calculate_relative_volatility P db token refs md tf =
     (let prices = extract_prices P (get_historical_price_data db token (hours_for tf) tf);
          cs = map (pct_change prices) [1 ..< length prices];
          mvs = market_volatilities P db (hours_for tf) tf md refs;
          avg = sum_list mvs / real (length mvs)
      in if length prices < 5 then Inr None
         else if mvs = [] then Inr None
         else if avg > 0
              then Inr (Some (sqrt (sum_sq_dev cs / real (length cs - 1)) / avg))
              else Inr None)"
proof -
  define prices where "prices = extract_prices P (get_historical_price_data db token (hours_for tf) tf)"
  define cs where "cs = map (pct_change prices) [1 ..< length prices]"
  have pc: "price_changes prices = Inr cs"
    unfolding prices_def cs_def by (rule extracted_changes)
  have len: "length cs = length prices - 1"
    by (simp add: cs_def)
  show ?thesis
  proof (cases "length prices < 5")
    case True
    then show ?thesis
      unfolding calculate_relative_volatility_def relative_volatility_body_def Let_def
        prices_def [symmetric]
      by simp
  next
    case False
    with len have "\<not> length cs < 2" by simp
    then have sd: "stdev cs = Inr (sqrt (sum_sq_dev cs / real (length cs - 1)))"
      by (simp add: stdev_def)
    from False \<open>\<not> length cs < 2\<close> show ?thesis
      unfolding calculate_relative_volatility_def relative_volatility_body_def Let_def
        prices_def [symmetric] pc cs_def [symmetric]
      by (simp add: sd mean_def)
  qed
qed

subsection \<open>Skipped reference tokens\<close>

lemma short_prices:
  "extract_prices P (get_historical_price_data short_db ''BTC'' h tf) = [100, 102, 98, 105]"
  by (simp add: eval_defs short_db_def)

lemma ref_volatility_no_prices:
  "extract_prices P (get_historical_price_data db r h tf) = [] \<Longrightarrow>
   ref_volatility P db h tf r = Inr None"
  by (simp add: ref_volatility_def)

lemma market_volatilities_skip:
  "md r = None \<or> ref_volatility P db h tf r = Inr None \<or> (\<exists>e. ref_volatility P db h tf r = Inl e)
   \<Longrightarrow> market_volatilities P db h tf md (xs @ r # ys) = market_volatilities P db h tf md (xs @ ys)"
  by (auto simp: market_volatilities_append)

lemma market_volatilities_none:
  "\<forall>r \<in> set refs. md r = None \<or> ref_volatility P db h tf r = Inr None \<Longrightarrow>
   market_volatilities P db h tf md refs = []"
  by (induction refs) auto

lemma constant_ref_prices:
  "extract_prices P (get_historical_price_data constant_refs_db ''ETH'' h tf)
     = [100, 100, 100, 100, 100, 100, 100, 100]"
  by (simp add: eval_defs constant_refs_db_def)

lemma constant_ref_volatility:
  "ref_volatility P constant_refs_db h tf ''ETH'' = Inr (Some 0)"
  unfolding ref_volatility_def Let_def constant_ref_prices constant_changes
  by (simp add: stdev_zeros)

lemma constant_refs_market:
  "market_volatilities P constant_refs_db h tf md_eth [''ETH''] = [0]"
  by (simp add: constant_ref_volatility md_eth_def)

subsection \<open>Identical series\<close>

lemma ref_volatility_same:
  assumes "db r h = db t h"
  shows "ref_volatility P db h tf r = ref_volatility P db h tf t"
  using assms by (simp add: ref_volatility_def get_historical_price_data_def)

lemma ref_volatility_valid:
  assumes len: "5 \<le> length (extract_prices P (get_historical_price_data db t h tf))"
  shows "ref_volatility P db h tf t =
     Inr (Some (sqrt (sum_sq_dev (map (pct_change (extract_prices P (get_historical_price_data db t h tf)))
                        [1 ..< length (extract_prices P (get_historical_price_data db t h tf))])
                 / real (length (extract_prices P (get_historical_price_data db t h tf)) - 2))))"
proof -
  define prices where "prices = extract_prices P (get_historical_price_data db t h tf)"
  define cs where "cs = map (pct_change prices) [1 ..< length prices]"
  have pc: "price_changes prices = Inr cs"
    unfolding prices_def cs_def by (rule extracted_changes)
  have lcs: "length cs = length prices - 1"
    by (simp add: cs_def)
  with len have two: "2 \<le> length cs"
    by (simp add: prices_def)
  then have sd: "stdev cs = Inr (sqrt (sum_sq_dev cs / real (length prices - 2)))"
    using lcs by (simp add: stdev_def)
  from len have nlt: "\<not> length prices < 5"
    by (simp add: prices_def)
  have "ref_volatility P db h tf t = Inr (Some (sqrt (sum_sq_dev cs / real (length prices - 2))))"
    unfolding ref_volatility_def Let_def prices_def [symmetric] pc
    using nlt two by (simp add: sd)
  then show ?thesis
    by (simp add: cs_def prices_def)
qed

lemma parity_core:
  assumes len: "5 \<le> length (extract_prices P (get_historical_price_data db token (hours_for tf) tf))"
    and pc: "price_changes (extract_prices P (get_historical_price_data db token (hours_for tf) tf))
               = Inr cs"
    and ne: "a \<in> set cs" "b \<in> set cs" "a \<noteq> b"
    and member: "\<exists>r \<in> set refs. md r \<noteq> None"
    and same: "\<forall>r \<in> set refs. md r \<noteq> None \<longrightarrow> db r (hours_for tf) = db token (hours_for tf)"
  shows "calculate_relative_volatility P db token refs md tf = Inr (Some 1)"
proof -
  define h where "h = hours_for tf"
  define prices where "prices = extract_prices P (get_historical_price_data db token h tf)"
  have cs: "cs = map (pct_change prices) [1 ..< length prices]"
    using pc extracted_changes [of P "get_historical_price_data db token h tf"]
    by (simp add: prices_def h_def)
  define v where "v = sqrt (sum_sq_dev cs / real (length prices - 2))"
  have lcs: "length cs = length prices - 1"
    by (simp add: cs)
  have len': "5 \<le> length prices"
    using len by (simp add: prices_def h_def)
  from stdev_pos [OF ne] obtain w where w: "stdev cs = Inr w" "0 < w"
    by blast
  have "stdev cs = Inr v"
    using lcs len' by (simp add: stdev_def v_def)
  with w have vpos: "0 < v"
    by simp
  have tok: "ref_volatility P db h tf token = Inr (Some v)"
    using ref_volatility_valid [of P db token h tf] len'
    by (simp add: prices_def v_def cs)
  have "\<forall>r \<in> set refs. md r \<noteq> None \<longrightarrow> ref_volatility P db h tf r = Inr (Some v)"
  proof (intro ballI impI)
    fix r assume "r \<in> set refs" "md r \<noteq> None"
    with same have "db r h = db token h"
      by (simp add: h_def)
    then have "ref_volatility P db h tf r = ref_volatility P db h tf token"
      by (rule ref_volatility_same)
    with tok show "ref_volatility P db h tf r = Inr (Some v)"
      by simp
  qed
  then have mvs: "market_volatilities P db h tf md refs
      = replicate (length (filter (\<lambda>r. md r \<noteq> None) refs)) v"
    by (rule market_volatilities_same)
  define k where "k = length (filter (\<lambda>r. md r \<noteq> None) refs)"
  have kpos: "0 < k"
    using member by (auto simp: k_def filter_empty_conv)
  have avg: "sum_list (replicate k v) / real k = v"
    using kpos by (simp add: sum_list_replicate)
  have sq: "sqrt (sum_sq_dev cs / real (length cs - 1)) = v"
    using lcs len' by (simp add: v_def)
  show ?thesis
    unfolding calc_eq Let_def h_def [symmetric] prices_def [symmetric] cs [symmetric] mvs
      k_def [symmetric]
    using len' kpos vpos avg sq by simp
qed

lemma example_parity:
  assumes "md r \<noteq> None" "r \<in> set refs"
  shows "calculate_relative_volatility P example_db t refs md tf = Inr (Some 1)"
proof (rule parity_core [where a = 2 and b = "50 / 7"])
  show "5 \<le> length (extract_prices P (get_historical_price_data example_db t (hours_for tf) tf))"
    by (simp add: example_prices)
  show "price_changes (extract_prices P (get_historical_price_data example_db t (hours_for tf) tf))
      = Inr [2, - (200 / 51), 50 / 7, - (40 / 21), - (400 / 103), 800 / 99, - (300 / 107)]"
    unfolding example_prices by (rule example_changes)
  show "\<exists>r \<in> set refs. md r \<noteq> None"
    using assms by blast
  show "\<forall>r \<in> set refs. md r \<noteq> None \<longrightarrow>
          example_db r (hours_for tf) = example_db t (hours_for tf)"
    by (simp add: example_db_def)
qed simp_all




lemma no_market_data_result:
  "calculate_relative_volatility P db t refs md_none tf = Inr None"
proof -
  have "market_volatilities P db (hours_for tf) tf md_none refs = []"
    by (rule market_volatilities_none) (simp add: md_none_def)
  then show ?thesis
    unfolding calc_eq Let_def by simp
qed

subsection \<open>Dependence on the lookup\<close>

lemma calc_cong:
  assumes tok: "db token (hours_for tf) = db' token (hours_for tf)"
    and refs: "\<forall>r \<in> set refs. md r \<noteq> None \<longrightarrow> db r (hours_for tf) = db' r (hours_for tf)"
  shows "calculate_relative_volatility P db token refs md tf
       = calculate_relative_volatility P db' token refs md tf"
proof -
  have "get_historical_price_data db token (hours_for tf) tf
      = get_historical_price_data db' token (hours_for tf) tf"
    using tok by (simp add: get_historical_price_data_def)
  moreover have "market_volatilities P db (hours_for tf) tf md refs
      = market_volatilities P db' (hours_for tf) tf md refs"
    using refs by (rule market_volatilities_cong)
  ultimately show ?thesis
    by (simp add: calc_eq)
qed

lemma calc_filter:
  "calculate_relative_volatility P db token refs md tf
     = calculate_relative_volatility P db token (filter (\<lambda>r. md r \<noteq> None) refs) md tf"
  using market_volatilities_filter [of P db "hours_for tf" tf md refs]
  by (simp add: calc_eq)

lemma example_ref_volatility_pos:
  "\<exists>v. ref_volatility P example_db h tf r = Inr (Some v) \<and> 0 < v"
proof -
  have "stdev [2, - (200 / 51), 50 / 7, - (40 / 21), - (400 / 103), 800 / 99, - (300 / 107)]
          = Inr (sqrt (sum_sq_dev
              [2, - (200 / 51), 50 / 7, - (40 / 21), - (400 / 103), 800 / 99, - (300 / 107)] / 6))"
    by (simp add: stdev_def)
  moreover have "\<exists>v. stdev [2, - (200 / 51), 50 / 7, - (40 / 21), - (400 / 103), 800 / 99,
      - (300 / 107)] = Inr v \<and> 0 < v"
    by (rule stdev_pos [where a = 2 and b = "50 / 7"]) simp_all
  ultimately show ?thesis
    unfolding ref_volatility_def Let_def example_prices example_changes
    by simp
qed

lemma change_step_pos:
  "0 < prior \<Longrightarrow> change_step prior cur = Inr (Some ((cur / prior - 1) * 100))"
  by (simp add: change_step_eq)

subsection \<open>Extraction as the specification reads it\<close>

lemma kept_price:
  "(case (case v of PNone \<Rightarrow> Inr None | _ \<Rightarrow> guarded_float P v) of
      Inl e \<Rightarrow> [] | Inr None \<Rightarrow> [] | Inr (Some p) \<Rightarrow> if p > 0 then [p] else [])
   = (case py_float P v of Inl e \<Rightarrow> [] | Inr x \<Rightarrow> if 0 < x then [x] else [])"
proof (cases v)
  case (PStr s)
  then show ?thesis by (cases "P s") (simp_all add: guarded_float_def)
qed (simp_all add: guarded_float_def)

lemma number_price:
  "(case map_sum id Some (py_float P v) of
      Inl e \<Rightarrow> [] | Inr None \<Rightarrow> [] | Inr (Some p) \<Rightarrow> if p > 0 then [p] else [])
   = (case py_float P v of Inl e \<Rightarrow> [] | Inr x \<Rightarrow> if 0 < x then [x] else [])"
  by (cases "py_float P v") simp_all

lemma spec_price_kept:
  "(case spec_price P entry of None \<Rightarrow> [] | Some x \<Rightarrow> [x])
   = (case carried entry of None \<Rightarrow> []
      | Some v \<Rightarrow> (case py_float P v of Inl e \<Rightarrow> [] | Inr x \<Rightarrow> if 0 < x then [x] else []))"
proof (cases "carried entry")
  case None
  then show ?thesis by (simp add: spec_price_def)
next
  case (Some v)
  then show ?thesis by (cases "py_float P v") (simp_all add: spec_price_def)
qed

lemma extract_entry_spec:
  "extract_entry P entry = (case spec_price P entry of None \<Rightarrow> [] | Some x \<Rightarrow> [x])"
proof (cases entry)
  case (PDict kvs)
  then show ?thesis
    by (cases "map_of kvs ''price''") (simp_all add: extract_entry_def kept_price spec_price_kept)
next
  case (PList vs)
  then show ?thesis
    by (cases vs) (simp_all add: extract_entry_def kept_price spec_price_kept)
next
  case (PTuple vs)
  then show ?thesis
    by (cases vs) (simp_all add: extract_entry_def kept_price spec_price_kept)
next
  case (PInt n)
  then show ?thesis
    using number_price [of P "PInt n"]
    by (simp add: extract_entry_def spec_price_kept del: py_float.simps)
next
  case (PFloat r)
  then show ?thesis by (simp add: extract_entry_def spec_price_kept)
next
  case (PBool b)
  then show ?thesis by (simp add: extract_entry_def spec_price_kept)
qed (simp_all add: extract_entry_def spec_price_kept)

lemma extract_loop_spec: "extract_loop P entries = List.map_filter (spec_price P) entries"
  by (induction entries) (simp_all add: extract_entry_spec map_filter_simps split: option.splits)

lemma extract_loop_keys: "extract_loop P (map (\<lambda>kv. PStr (fst kv)) kvs) = []"
  by (induction kvs) (simp_all add: extract_entry_def)

lemma carried_number: "is_number v \<Longrightarrow> carried v = Some v"
  by (cases v) simp_all

lemma spec_price_carried: "carried a = carried b \<Longrightarrow> spec_price P a = spec_price P b"
  by (simp add: spec_price_def)

lemma map_filter_carried:
  "map carried es = map carried ds \<Longrightarrow>
   List.map_filter (spec_price P) es = List.map_filter (spec_price P) ds"
proof (induction es arbitrary: ds)
  case Nil
  then show ?case by simp
next
  case (Cons e es)
  then obtain d ds' where ds: "ds = d # ds'" "carried e = carried d" "map carried es = map carried ds'"
    by (cases ds) auto
  have ih: "List.map_filter (spec_price P) es = List.map_filter (spec_price P) ds'"
    using ds(3) by (rule Cons.IH)
  have sp: "spec_price P e = spec_price P d"
    using ds(2) by (rule spec_price_carried)
  show ?case
    unfolding ds(1) by (cases "spec_price P d") (simp_all add: map_filter_simps sp ih)
qed

lemma unusable_spec: "unusable P entry \<longleftrightarrow> spec_price P entry = None"
  by (auto simp: unusable_def spec_price_def split: option.splits sum.splits)

lemma map_filter_append:
  "List.map_filter f (xs @ ys) = List.map_filter f xs @ List.map_filter f ys"
  by (simp add: List.map_filter_def)

lemma mixed_carried: "map carried mixed_history = map Some plain_history"
  by (simp add: mixed_history_def plain_history_def)

subsection \<open>Dependence on the extracted prices\<close>

lemma history_prices:
  "extract_prices P (get_historical_price_data db t h tf) =
     (case db t h of
        Inl e \<Rightarrow> []
      | Inr rows \<Rightarrow> List.map_filter (spec_price P) (map (\<lambda>v. PDict [(''price'', v)]) rows))"
  by (cases "db t h")
     (simp_all add: get_historical_price_data_def extract_loop_spec map_filter_simps)

lemma ref_volatility_prices_cong:
  assumes "extract_prices P (get_historical_price_data db r h tf)
         = extract_prices P (get_historical_price_data db' r h tf)"
  shows "ref_volatility P db h tf r = ref_volatility P db' h tf r"
  using assms by (simp add: ref_volatility_def)

lemma market_volatilities_prices_cong:
  assumes "\<forall>r \<in> set refs. extract_prices P (get_historical_price_data db r h tf)
             = extract_prices P (get_historical_price_data db' r h tf)"
  shows "market_volatilities P db h tf md refs = market_volatilities P db' h tf md refs"
  using assms
proof (induction refs)
  case Nil
  show ?case by simp
next
  case (Cons r refs)
  then have "ref_volatility P db h tf r = ref_volatility P db' h tf r"
    by (intro ref_volatility_prices_cong) simp
  moreover from Cons have "market_volatilities P db h tf md refs = market_volatilities P db' h tf md refs"
    by simp
  ultimately show ?case by simp
qed

lemma calc_prices_cong:
  assumes "\<forall>t. extract_prices P (get_historical_price_data db t (hours_for tf) tf)
             = extract_prices P (get_historical_price_data db' t (hours_for tf) tf)"
  shows "calculate_relative_volatility P db token refs md tf
       = calculate_relative_volatility P db' token refs md tf"
proof -
  have "market_volatilities P db (hours_for tf) tf md refs
      = market_volatilities P db' (hours_for tf) tf md refs"
    by (rule market_volatilities_prices_cong) (simp add: assms)
  with assms show ?thesis
    by (simp add: calc_eq)
qed

lemma remove_unusable:
  assumes "i < length entries" "spec_price P (entries ! i) = None"
  shows "List.map_filter (spec_price P) entries
       = List.map_filter (spec_price P) (take i entries @ drop (Suc i) entries)"
proof -
  have "entries = take i entries @ entries ! i # drop (Suc i) entries"
    using assms(1) by (simp add: id_take_nth_drop)
  then have "List.map_filter (spec_price P) entries
      = List.map_filter (spec_price P) (take i entries @ entries ! i # drop (Suc i) entries)"
    by simp
  also have "\<dots> = List.map_filter (spec_price P) (take i entries @ drop (Suc i) entries)"
    using assms(2) by (simp add: map_filter_append map_filter_simps)
  finally show ?thesis .
qed

lemma nonpositive_spec_price:
  "carried entry = Some v \<Longrightarrow> py_float P v = Inr x \<Longrightarrow> x \<le> 0 \<Longrightarrow> spec_price P entry = None"
  by (simp add: spec_price_def)

lemma extracted_divisors:
  assumes "0 < k" "k < length (extract_prices P history)"
  shows "0 < extract_prices P history ! (k - 1)"
proof -
  from assms have "k - 1 < length (extract_prices P history)" by simp
  then have "extract_prices P history ! (k - 1) \<in> set (extract_prices P history)"
    by (rule nth_mem)
  then show ?thesis by (rule extract_prices_pos)
qed

lemma zero_history_prices:
  "extract_prices P (PList zero_history) = [100, 102, 105, 103, 99]"
  by (simp add: zero_history_def extract_entry_def guarded_float_def)

lemma zero_history_changes:
  "price_changes [100, 102, 105, 103, 99] = Inr [2, 50 / 17, - (40 / 21), - (400 / 103)]"
  by (simp add: change_step_def py_div_def)

subsection \<open>Identical and constant series\<close>









subsection \<open>Exceptions that pass the handlers\<close>









lemma history_full_only_exceptions:
  "get_historical_price_data_full (only_exceptions db) t h tf
     = Inr (get_historical_price_data db t h tf)"
  by (cases "db t h")
     (simp_all add: get_historical_price_data_full_def get_historical_price_data_def
        only_exceptions_def)

lemma ref_volatility_full_only_exceptions:
  "ref_volatility_full P (only_exceptions db) h tf r
     = map_sum Exception id (ref_volatility P db h tf r)"
  unfolding ref_volatility_full_def ref_volatility_def history_full_only_exceptions Let_def
    extracted_changes
  by (simp add: stdev_def)

lemma market_volatilities_full_only_exceptions:
  "market_volatilities_full P (only_exceptions db) h tf md refs
     = Inr (market_volatilities P db h tf md refs)"
proof (induction refs)
  case Nil
  show ?case by simp
next
  case (Cons r refs)
  show ?case
  proof (cases "ref_volatility P db h tf r")
    case (Inl e)
    with Cons show ?thesis
      by (simp add: ref_volatility_full_only_exceptions)
  next
    case (Inr ov)
    with Cons show ?thesis
      by (cases ov) (simp_all add: ref_volatility_full_only_exceptions)
  qed
qed

text \<open>
  For a query that raises instances of \<open>Exception\<close> only, the embedding with every
  exception agrees with the one above.
\<close>

lemma full_agrees:
  "calculate_relative_volatility_full P (only_exceptions db) token refs md tf
     = map_sum Exception id (calculate_relative_volatility P db token refs md tf)"
  unfolding calculate_relative_volatility_full_def relative_volatility_body_full_def
    calculate_relative_volatility_def relative_volatility_body_def
    history_full_only_exceptions market_volatilities_full_only_exceptions Let_def
    extracted_changes
  by (simp add: stdev_def mean_def)



section \<open>Properties\<close>

subsection \<open>The lookback window\<close>

text \<open>
  C8: the window is 24 hours for \<open>"1h"\<close>, 168 hours for \<open>"24h"\<close>, 720 hours for
  \<open>"7d"\<close>, and 720 hours for any other timeframe string.
\<close>

theorem hours_for_table:
  "hours_for ''1h'' = 24 \<and> hours_for ''24h'' = 168 \<and> hours_for ''7d'' = 720 \<and>
   (timeframe \<noteq> ''1h'' \<and> timeframe \<noteq> ''24h'' \<longrightarrow> hours_for timeframe = 720)"
  by (simp add: hours_for_def)

theorem hours_for_table_witness:
  "''30d'' \<noteq> ''1h'' \<and> ''30d'' \<noteq> ''24h'' \<and> hours_for ''30d'' = 720"
  using hours_for_table [of "''30d''"] by simp

subsection \<open>Soft failures\<close>

text \<open>
  C4: when the subject token's history yields fewer than 5 valid prices, the result is the
  no-result \<open>Inr None\<close>, whatever the reference tokens have. In the instance below the
  subject token has 4 prices and the reference token 8.
\<close>

theorem insufficient_token_data:
  "length (extract_prices P (get_historical_price_data db token (hours_for timeframe) timeframe)) < 5
   \<Longrightarrow> calculate_relative_volatility P db token reference_tokens market_data timeframe = Inr None"
  by (simp add: calc_eq)

theorem insufficient_token_data_witness:
  "length (extract_prices no_parser
      (get_historical_price_data short_db ''BTC'' (hours_for ''1h'') ''1h'')) < 5 \<and>
   length (extract_prices no_parser
      (get_historical_price_data short_db ''ETH'' (hours_for ''1h'') ''1h'')) = 8 \<and>
   calculate_relative_volatility no_parser short_db ''BTC'' [''ETH''] md_eth ''1h'' = Inr None"
proof -
  have h: "length (extract_prices no_parser
      (get_historical_price_data short_db ''BTC'' (hours_for ''1h'') ''1h'')) < 5"
    by (simp add: short_prices)
  have "length (extract_prices no_parser
      (get_historical_price_data short_db ''ETH'' (hours_for ''1h'') ''1h'')) = 8"
    by (simp add: eval_defs short_db_def)
  with h insufficient_token_data [OF h, of "[''ETH'']" md_eth] show ?thesis by simp
qed

text \<open>
  C7: when the history lookup of every reference token returns no rows (or no data), the
  result is the no-result, also for a subject token with a valid series.
\<close>

theorem no_reference_data:
  assumes "\<forall>r \<in> set reference_tokens.
             db r (hours_for timeframe) = Inr [] \<or>
             get_historical_price_data db r (hours_for timeframe) timeframe = PNone"
  shows "calculate_relative_volatility P db token reference_tokens market_data timeframe = Inr None"
proof -
  have "\<forall>r \<in> set reference_tokens.
          get_historical_price_data db r (hours_for timeframe) timeframe = PNone"
    using assms by (auto simp: get_historical_price_data_def)
  then have "\<forall>r \<in> set reference_tokens.
          ref_volatility P db (hours_for timeframe) timeframe r = Inr None"
    by (simp add: ref_volatility_no_prices)
  then have "market_volatilities P db (hours_for timeframe) timeframe market_data reference_tokens = []"
    by (simp add: market_volatilities_none)
  then show ?thesis
    by (simp add: calc_eq Let_def)
qed

theorem no_reference_data_witness:
  "empty_refs_db ''ETH'' (hours_for ''24h'') = Inr [] \<and>
   empty_refs_db ''SOL'' (hours_for ''24h'') = Inr [] \<and>
   length (extract_prices no_parser
      (get_historical_price_data empty_refs_db ''BTC'' (hours_for ''24h'') ''24h'')) = 8 \<and>
   calculate_relative_volatility no_parser empty_refs_db ''BTC'' [''ETH'', ''SOL''] md_eth ''24h''
     = Inr None"
proof -
  have e: "empty_refs_db ''ETH'' (hours_for ''24h'') = Inr []"
      "empty_refs_db ''SOL'' (hours_for ''24h'') = Inr []"
    by (simp_all add: empty_refs_db_def)
  then have h: "\<forall>r \<in> set [''ETH'', ''SOL''].
      empty_refs_db r (hours_for ''24h'') = Inr [] \<or>
      get_historical_price_data empty_refs_db r (hours_for ''24h'') ''24h'' = PNone"
    by simp
  have "length (extract_prices no_parser
      (get_historical_price_data empty_refs_db ''BTC'' (hours_for ''24h'') ''24h'')) = 8"
    by (simp add: eval_defs empty_refs_db_def)
  with e no_reference_data [OF h, of no_parser "''BTC''" md_eth] show ?thesis by simp
qed

text \<open>
  C6: when the mean of the reference volatilities is exactly zero, the result is the
  no-result: no division by that mean takes place. In the instance below the reference
  series is constant.
\<close>

theorem zero_market_volatility:
  assumes "mean (market_volatilities P db (hours_for timeframe) timeframe market_data
                   reference_tokens) = Inr 0"
  shows "calculate_relative_volatility P db token reference_tokens market_data timeframe = Inr None"
proof -
  define mvs where
    "mvs = market_volatilities P db (hours_for timeframe) timeframe market_data reference_tokens"
  from assms have "mvs \<noteq> []" and "sum_list mvs / real (length mvs) = 0"
    unfolding mvs_def [symmetric] by (simp_all add: mean_def split: if_splits)
  then have "\<not> 0 < sum_list mvs / real (length mvs)"
    by simp
  then show ?thesis
    unfolding calc_eq Let_def mvs_def [symmetric] by simp
qed

theorem zero_market_volatility_witness:
  "mean (market_volatilities no_parser constant_refs_db (hours_for ''7d'') ''7d'' md_eth [''ETH''])
     = Inr 0 \<and>
   calculate_relative_volatility no_parser constant_refs_db ''BTC'' [''ETH''] md_eth ''7d''
     = Inr None"
proof -
  have h: "mean (market_volatilities no_parser constant_refs_db (hours_for ''7d'') ''7d'' md_eth
             [''ETH'']) = Inr 0"
    unfolding constant_refs_market by (simp add: mean_def)
  with zero_market_volatility [OF h, of "''BTC''"] show ?thesis by simp
qed

subsection \<open>Exceptions of the history lookup\<close>




subsection \<open>The baseline\<close>




text \<open>
  C9: a reference token that is not a key of \<open>market_data\<close> adds nothing to the baseline.
  The list of reference volatilities is the same with and without it, the result does not
  depend on what the lookup returns for it, and the result is the one for the reference
  list restricted to the keys of \<open>market_data\<close>. In the instance the reference token has a
  valid, positive volatility and is still left out.
\<close>

theorem reference_requires_market_data:
  "(market_data r = None \<longrightarrow>
      market_volatilities P db h timeframe market_data (xs @ r # ys)
        = market_volatilities P db h timeframe market_data (xs @ ys)) \<and>
   ((\<forall>t. t = token \<or> market_data t \<noteq> None \<longrightarrow>
          db t (hours_for timeframe) = db' t (hours_for timeframe)) \<longrightarrow>
      calculate_relative_volatility P db token reference_tokens market_data timeframe
        = calculate_relative_volatility P db' token reference_tokens market_data timeframe) \<and>
   calculate_relative_volatility P db token reference_tokens market_data timeframe
     = calculate_relative_volatility P db token
         (filter (\<lambda>r. market_data r \<noteq> None) reference_tokens) market_data timeframe"
proof (intro conjI impI)
  assume "market_data r = None"
  then show "market_volatilities P db h timeframe market_data (xs @ r # ys)
        = market_volatilities P db h timeframe market_data (xs @ ys)"
    by (simp add: market_volatilities_skip)
next
  assume "\<forall>t. t = token \<or> market_data t \<noteq> None \<longrightarrow>
          db t (hours_for timeframe) = db' t (hours_for timeframe)"
  then show "calculate_relative_volatility P db token reference_tokens market_data timeframe
        = calculate_relative_volatility P db' token reference_tokens market_data timeframe"
    by (intro calc_cong) auto
next
  show "calculate_relative_volatility P db token reference_tokens market_data timeframe
     = calculate_relative_volatility P db token
         (filter (\<lambda>r. market_data r \<noteq> None) reference_tokens) market_data timeframe"
    by (rule calc_filter)
qed

theorem reference_requires_market_data_witness:
  "md_none ''ETH'' = None \<and>
   (\<exists>v. ref_volatility no_parser example_db (hours_for ''1h'') ''1h'' ''ETH'' = Inr (Some v) \<and> 0 < v) \<and>
   market_volatilities no_parser example_db (hours_for ''1h'') ''1h'' md_none ([] @ ''ETH'' # [])
     = market_volatilities no_parser example_db (hours_for ''1h'') ''1h'' md_none ([] @ []) \<and>
   calculate_relative_volatility no_parser example_db ''BTC'' [''ETH''] md_none ''1h''
     = calculate_relative_volatility no_parser empty_refs_db ''BTC'' [''ETH''] md_none ''1h'' \<and>
   calculate_relative_volatility no_parser example_db ''BTC'' [''ETH''] md_none ''1h'' = Inr None \<and>
   calculate_relative_volatility no_parser example_db ''BTC'' [''ETH''] md_eth ''1h'' = Inr (Some 1)"
proof -
  have n: "md_none ''ETH'' = None"
    by (simp add: md_none_def)
  have agree: "\<forall>t. t = ''BTC'' \<or> md_none t \<noteq> None \<longrightarrow>
      example_db t (hours_for ''1h'') = empty_refs_db t (hours_for ''1h'')"
    by (simp add: md_none_def example_db_def empty_refs_db_def)
  note inst = reference_requires_market_data [of md_none "''ETH''" no_parser example_db
      "hours_for ''1h''" "''1h''" "[]" "[]" "''BTC''" empty_refs_db "[''ETH'']"]
  from inst n have a: "market_volatilities no_parser example_db (hours_for ''1h'') ''1h'' md_none
      ([] @ ''ETH'' # [])
     = market_volatilities no_parser example_db (hours_for ''1h'') ''1h'' md_none ([] @ [])"
    by blast
  from inst agree have b: "calculate_relative_volatility no_parser example_db ''BTC'' [''ETH''] md_none ''1h''
     = calculate_relative_volatility no_parser empty_refs_db ''BTC'' [''ETH''] md_none ''1h''"
    by blast
  have c: "calculate_relative_volatility no_parser example_db ''BTC'' [''ETH''] md_none ''1h'' = Inr None"
    by (rule no_market_data_result)
  have d: "calculate_relative_volatility no_parser example_db ''BTC'' [''ETH''] md_eth ''1h'' = Inr (Some 1)"
    by (rule example_parity [where r = "''ETH''"]) (simp_all add: md_eth_def)
  from n a b c d example_ref_volatility_pos show ?thesis
    by blast
qed

subsection \<open>Price extraction\<close>

text \<open>
  C3: every entry contributes exactly the price that the specification lets it carry: the
  \<open>price\<close> field of a record, the first element of a list or tuple, a plain number, as a
  float, when it is positive, and nothing otherwise. Hence a sequence whose entries carry
  numbers, in whatever mixture of shapes, gives the same prices as the sequence of those
  numbers as plain entries, and an unusable entry (price absent, not numeric after
  extraction, or at most 0) changes nothing. A history that is no list or tuple gives no
  prices: \<open>None\<close>, a string, a number, and a dict, whose iteration yields its keys.
  \<open>extract_prices\<close> returns a list on every input: each exception of the loop body is
  caught by one of its handlers.
\<close>

theorem extract_prices_by_shape:
  "extract_prices P (PList entries) = List.map_filter (spec_price P) entries \<and>
   extract_prices P (PTuple entries) = List.map_filter (spec_price P) entries \<and>
   (map carried entries = map Some values \<and> (\<forall>v \<in> set values. is_number v) \<longrightarrow>
      extract_prices P (PList entries) = extract_prices P (PList values)) \<and>
   (unusable P entry \<longrightarrow>
      extract_prices P (PList (xs @ entry # ys)) = extract_prices P (PList (xs @ ys))) \<and>
   extract_prices P PNone = [] \<and> extract_prices P (PStr s) = [] \<and>
   extract_prices P (PDict kvs) = [] \<and> extract_prices P (PInt n) = [] \<and>
   extract_prices P (PFloat x) = [] \<and> extract_prices P (PBool b) = []"
proof (intro conjI impI)
  show "extract_prices P (PList entries) = List.map_filter (spec_price P) entries"
    by (simp add: extract_loop_spec)
  show "extract_prices P (PTuple entries) = List.map_filter (spec_price P) entries"
    by (simp add: extract_loop_spec)
  show "extract_prices P (PDict kvs) = []"
    by (simp add: extract_loop_keys)
next
  assume h: "map carried entries = map Some values \<and> (\<forall>v \<in> set values. is_number v)"
  have cv: "map carried values = map Some values"
  proof (rule map_cong [OF refl])
    fix v assume "v \<in> set values"
    with h show "carried v = Some v" by (simp add: carried_number)
  qed
  have "map carried entries = map carried values"
    unfolding cv using h by (rule conjunct1)
  then have "List.map_filter (spec_price P) entries = List.map_filter (spec_price P) values"
    by (rule map_filter_carried)
  then show "extract_prices P (PList entries) = extract_prices P (PList values)"
    by (simp only: extract_prices.simps extract_loop_spec)
next
  assume "unusable P entry"
  then have "spec_price P entry = None"
    by (simp add: unusable_spec)
  then show "extract_prices P (PList (xs @ entry # ys)) = extract_prices P (PList (xs @ ys))"
    by (simp add: extract_loop_spec map_filter_append map_filter_simps)
qed simp_all

theorem extract_prices_by_shape_witness:
  "map carried mixed_history = map Some plain_history \<and>
   is_number (PFloat 100) \<and> is_number (PFloat (203 / 2)) \<and> is_number (PFloat (499 / 5)) \<and>
   is_number (PFloat (1021 / 10)) \<and> is_number (PInt 103) \<and>
   extract_prices no_parser (PList mixed_history) = extract_prices no_parser (PList plain_history) \<and>
   extract_prices no_parser (PList mixed_history) = [100, 203 / 2, 499 / 5, 1021 / 10, 103] \<and>
   unusable no_parser (PDict [(''price'', PStr ''n/a'')]) \<and>
   extract_prices no_parser (PList ([PFloat 100] @ PDict [(''price'', PStr ''n/a'')] # [PFloat 98]))
     = extract_prices no_parser (PList ([PFloat 100] @ [PFloat 98])) \<and>
   extract_prices no_parser (PList invalid_history) = []"
proof -
  note inst = extract_prices_by_shape [of no_parser mixed_history plain_history
      "PDict [(''price'', PStr ''n/a'')]" "[PFloat 100]" "[PFloat 98]"]
  have n: "\<forall>v \<in> set plain_history. is_number v"
    by (simp add: plain_history_def)
  have u: "unusable no_parser (PDict [(''price'', PStr ''n/a'')])"
    by (simp add: unusable_def no_parser_def)
  from inst mixed_carried n
  have a: "extract_prices no_parser (PList mixed_history) = extract_prices no_parser (PList plain_history)"
    by blast
  from inst have "extract_prices no_parser (PList mixed_history)
      = List.map_filter (spec_price no_parser) mixed_history"
    by blast
  then have b: "extract_prices no_parser (PList mixed_history) = [100, 203 / 2, 499 / 5, 1021 / 10, 103]"
    by (simp add: mixed_history_def map_filter_simps spec_price_def int_too_large_def)
  from inst u
  have c: "extract_prices no_parser (PList ([PFloat 100] @ PDict [(''price'', PStr ''n/a'')] # [PFloat 98]))
     = extract_prices no_parser (PList ([PFloat 100] @ [PFloat 98]))"
    by blast
  have d: "extract_prices no_parser (PList invalid_history) = []"
    using extract_prices_by_shape [of no_parser invalid_history]
    by (simp add: invalid_history_def map_filter_simps spec_price_def no_parser_def)
  have e: "is_number (PFloat 100)" "is_number (PFloat (203 / 2))" "is_number (PFloat (499 / 5))"
      "is_number (PFloat (1021 / 10))" "is_number (PInt 103)"
    by simp_all
  from mixed_carried e a b u c d show ?thesis
    by blast
qed

subsection \<open>The change loop\<close>

text \<open>
  C5: a history entry with a zero or negative price at position \<open>i\<close> is dropped by the
  extraction, so that the prices, their percentage changes and the result of
  \<open>calculate_relative_volatility\<close> are those of the history without that entry: no
  transition into or out of position \<open>i\<close> is computed. The change loop returns its list
  of changes without raising, and every division it makes is by a positive prior price.
\<close>

theorem zero_price_skipped:
  "(i < length entries \<and> carried (entries ! i) = Some v \<and> py_float P v = Inr x \<and> x \<le> 0 \<longrightarrow>
      extract_prices P (PList entries)
        = extract_prices P (PList (take i entries @ drop (Suc i) entries)) \<and>
      price_changes (extract_prices P (PList entries))
        = price_changes (extract_prices P (PList (take i entries @ drop (Suc i) entries)))) \<and>
   (db token (hours_for timeframe) = Inr rows \<and> i < length rows \<and>
    py_float P (rows ! i) = Inr x \<and> x \<le> 0 \<longrightarrow>
      calculate_relative_volatility P db token reference_tokens market_data timeframe
        = calculate_relative_volatility P
            (db(token := \<lambda>hours_back. Inr (take i rows @ drop (Suc i) rows)))
            token reference_tokens market_data timeframe) \<and>
   price_changes (extract_prices P history)
     = Inr (map (pct_change (extract_prices P history)) [1 ..< length (extract_prices P history)]) \<and>
   (\<forall>k. 0 < k \<and> k < length (extract_prices P history) \<longrightarrow>
      0 < extract_prices P history ! (k - 1) \<and>
      py_div (extract_prices P history ! k) (extract_prices P history ! (k - 1))
        = Inr (extract_prices P history ! k / extract_prices P history ! (k - 1)))"
proof (intro conjI impI allI)
  assume h: "i < length entries \<and> carried (entries ! i) = Some v \<and> py_float P v = Inr x \<and> x \<le> 0"
  then have "spec_price P (entries ! i) = None"
    by (simp add: nonpositive_spec_price)
  with h show e: "extract_prices P (PList entries)
        = extract_prices P (PList (take i entries @ drop (Suc i) entries))"
    by (simp only: extract_prices.simps extract_loop_spec) (rule remove_unusable, simp_all)
  then show "price_changes (extract_prices P (PList entries))
        = price_changes (extract_prices P (PList (take i entries @ drop (Suc i) entries)))"
    by (rule arg_cong)
next
  assume h: "db token (hours_for timeframe) = Inr rows \<and> i < length rows \<and>
    py_float P (rows ! i) = Inr x \<and> x \<le> 0"
  define db' where "db' = db(token := \<lambda>hours_back. Inr (take i rows @ drop (Suc i) rows))"
  let ?wrap = "\<lambda>v. PDict [(''price'', v)]"
  have sp: "spec_price P (map ?wrap rows ! i) = None"
    using h by (simp add: spec_price_def)
  have "List.map_filter (spec_price P) (map ?wrap rows)
      = List.map_filter (spec_price P) (take i (map ?wrap rows) @ drop (Suc i) (map ?wrap rows))"
    by (rule remove_unusable) (use h sp in simp_all)
  then have tok: "List.map_filter (spec_price P) (map ?wrap rows)
      = List.map_filter (spec_price P) (map ?wrap (take i rows @ drop (Suc i) rows))"
    by (simp add: take_map drop_map)
  have "\<forall>t. extract_prices P (get_historical_price_data db t (hours_for timeframe) timeframe)
           = extract_prices P (get_historical_price_data db' t (hours_for timeframe) timeframe)"
  proof
    fix t
    show "extract_prices P (get_historical_price_data db t (hours_for timeframe) timeframe)
           = extract_prices P (get_historical_price_data db' t (hours_for timeframe) timeframe)"
    proof (cases "t = token")
      case True
      with h tok show ?thesis
        unfolding history_prices by (simp add: db'_def)
    next
      case False
      then show ?thesis
        unfolding history_prices by (simp add: db'_def)
    qed
  qed
  then show "calculate_relative_volatility P db token reference_tokens market_data timeframe
        = calculate_relative_volatility P
            (db(token := \<lambda>hours_back. Inr (take i rows @ drop (Suc i) rows)))
            token reference_tokens market_data timeframe"
    unfolding db'_def [symmetric] by (rule calc_prices_cong)
next
  show "price_changes (extract_prices P history)
     = Inr (map (pct_change (extract_prices P history)) [1 ..< length (extract_prices P history)])"
    by (rule extracted_changes)
next
  fix k assume k: "0 < k \<and> k < length (extract_prices P history)"
  then have "0 < k" "k < length (extract_prices P history)"
    by simp_all
  then show pos: "0 < extract_prices P history ! (k - 1)"
    by (rule extracted_divisors)
  then show "py_div (extract_prices P history ! k) (extract_prices P history ! (k - 1))
        = Inr (extract_prices P history ! k / extract_prices P history ! (k - 1))"
    by (simp add: py_div_def)
qed

theorem zero_price_skipped_witness:
  "(2::nat) < length zero_history \<and> carried (zero_history ! 2) = Some (PFloat 0) \<and>
   py_float no_parser (PFloat 0) = Inr 0 \<and>
   get_historical_price_data zero_db ''BTC'' (hours_for ''1h'') ''1h'' = PList zero_history \<and>
   extract_prices no_parser (PList zero_history)
     = extract_prices no_parser (PList (take 2 zero_history @ drop (Suc 2) zero_history)) \<and>
   extract_prices no_parser (PList zero_history) = [100, 102, 105, 103, 99] \<and>
   price_changes (extract_prices no_parser (PList zero_history))
     = Inr [2, 50 / 17, - (40 / 21), - (400 / 103)] \<and>
   zero_db ''BTC'' (hours_for ''1h'') = Inr zero_rows \<and> (2::nat) < length zero_rows \<and>
   py_float no_parser (zero_rows ! 2) = Inr 0 \<and>
   calculate_relative_volatility no_parser zero_db ''BTC'' [''ETH''] md_eth ''1h''
     = calculate_relative_volatility no_parser
         (zero_db(''BTC'' := \<lambda>hours_back. Inr (take 2 zero_rows @ drop (Suc 2) zero_rows)))
         ''BTC'' [''ETH''] md_eth ''1h''"
proof -
  note inst = zero_price_skipped [of 2 zero_history "PFloat 0" no_parser 0 zero_db "''BTC''" "''1h''"
      zero_rows "[''ETH'']" md_eth "PList zero_history"]
  have a: "(2::nat) < length zero_history" "carried (zero_history ! 2) = Some (PFloat 0)"
      "py_float no_parser (PFloat 0) = Inr 0" "(0::real) \<le> 0"
    by (simp_all add: zero_history_def)
  have g: "get_historical_price_data zero_db ''BTC'' (hours_for ''1h'') ''1h'' = PList zero_history"
    by (simp add: get_historical_price_data_def zero_db_def zero_rows_def zero_history_def)
  have r: "zero_db ''BTC'' (hours_for ''1h'') = Inr zero_rows" "(2::nat) < length zero_rows"
      "py_float no_parser (zero_rows ! 2) = Inr 0"
    by (simp_all add: zero_db_def zero_rows_def)
  from inst a have e: "extract_prices no_parser (PList zero_history)
     = extract_prices no_parser (PList (take 2 zero_history @ drop (Suc 2) zero_history))"
    by blast
  have p: "extract_prices no_parser (PList zero_history) = [100, 102, 105, 103, 99]"
    by (rule zero_history_prices)
  have c: "price_changes (extract_prices no_parser (PList zero_history))
     = Inr [2, 50 / 17, - (40 / 21), - (400 / 103)]"
    unfolding p by (rule zero_history_changes)
  from inst r a(4) have k: "calculate_relative_volatility no_parser zero_db ''BTC'' [''ETH''] md_eth ''1h''
     = calculate_relative_volatility no_parser
         (zero_db(''BTC'' := \<lambda>hours_back. Inr (take 2 zero_rows @ drop (Suc 2) zero_rows)))
         ''BTC'' [''ETH''] md_eth ''1h''"
    by blast
  from a g e p c r k show ?thesis
    by blast
qed

text \<open>
  C10: extracted prices are strictly positive, so on them every step of the change loop
  passes the guard and divides without raising, and the loop yields one change less than
  there are prices. With at least 5 prices there are at least 4 changes: the test
  \<open>len(token_changes) < 2\<close> is false whenever it is reached, and so the handler of
  \<open>ZeroDivisionError\<close> and that guard are never taken.
\<close>

theorem change_guards_unreachable:
  "prices = extract_prices P history \<longrightarrow>
   (\<forall>p \<in> set prices. 0 < p) \<and>
   (\<forall>i. 0 < i \<and> i < length prices \<longrightarrow>
        change_step (prices ! (i - 1)) (prices ! i) = Inr (Some (pct_change prices i))) \<and>
   price_changes prices = Inr (map (pct_change prices) [1 ..< length prices]) \<and>
   (\<forall>cs. price_changes prices = Inr cs \<longrightarrow> length cs = length prices - 1) \<and>
   (5 \<le> length prices \<longrightarrow>
      (\<forall>cs. price_changes prices = Inr cs \<longrightarrow> 4 \<le> length cs \<and> \<not> length cs < 2))"
proof (intro impI conjI allI ballI)
  assume p: "prices = extract_prices P history"
  {
    fix q assume "q \<in> set prices"
    with p show "0 < q" by (simp add: extract_prices_pos)
  next
    fix i assume i: "0 < i \<and> i < length prices"
    then have "i - 1 < length prices" by auto
    then have "prices ! (i - 1) \<in> set prices" by (rule nth_mem)
    with p have "0 < prices ! (i - 1)" by (simp add: extract_prices_pos)
    then show "change_step (prices ! (i - 1)) (prices ! i) = Inr (Some (pct_change prices i))"
      by (simp add: change_step_pos pct_change_def)
  next
    show pc: "price_changes prices = Inr (map (pct_change prices) [1 ..< length prices])"
      unfolding p by (rule extracted_changes)
    {
      fix cs assume "price_changes prices = Inr cs"
      with pc show "length cs = length prices - 1" by auto
    next
      fix cs assume "5 \<le> length prices" "price_changes prices = Inr cs"
      with pc have "length cs = length prices - 1" "5 \<le> length prices" by auto
      then show "4 \<le> length cs" "\<not> length cs < 2" by simp_all
    }
  }
qed

theorem change_guards_unreachable_witness:
  "[100, 102, 98, 105, 103, 99, 107, 104]
     = extract_prices no_parser (get_historical_price_data example_db ''BTC'' 24 ''1h'') \<and>
   (5::nat) \<le> length [100, 102, 98, 105, 103, 99, 107, 104 :: real] \<and>
   change_step ([100, 102, 98, 105, 103, 99, 107, 104] ! (1 - 1))
               ([100, 102, 98, 105, 103, 99, 107, 104] ! 1)
     = Inr (Some (pct_change [100, 102, 98, 105, 103, 99, 107, 104] 1)) \<and>
   price_changes [100, 102, 98, 105, 103, 99, 107, 104]
     = Inr [2, - (200 / 51), 50 / 7, - (40 / 21), - (400 / 103), 800 / 99, - (300 / 107)] \<and>
   length [2, - (200 / 51), 50 / 7, - (40 / 21), - (400 / 103), 800 / 99, - (300 / 107) :: real]
     = length [100, 102, 98, 105, 103, 99, 107, 104 :: real] - 1"
proof -
  have p: "[100, 102, 98, 105, 103, 99, 107, 104]
     = extract_prices no_parser (get_historical_price_data example_db ''BTC'' 24 ''1h'')"
    by (simp add: example_prices)
  note inst = change_guards_unreachable [of "[100, 102, 98, 105, 103, 99, 107, 104]" no_parser
      "get_historical_price_data example_db ''BTC'' 24 ''1h''"]
  from inst p have a: "\<forall>i. 0 < i \<and> i < length [100, 102, 98, 105, 103, 99, 107, 104 :: real] \<longrightarrow>
        change_step ([100, 102, 98, 105, 103, 99, 107, 104] ! (i - 1))
                    ([100, 102, 98, 105, 103, 99, 107, 104] ! i)
          = Inr (Some (pct_change [100, 102, 98, 105, 103, 99, 107, 104] i))"
    by blast
  have s: "change_step ([100, 102, 98, 105, 103, 99, 107, 104] ! (1 - 1))
               ([100, 102, 98, 105, 103, 99, 107, 104] ! 1)
     = Inr (Some (pct_change [100, 102, 98, 105, 103, 99, 107, 104] 1))"
    by (rule a [THEN spec, THEN mp]) simp
  have l: "(5::nat) \<le> length [100, 102, 98, 105, 103, 99, 107, 104 :: real]"
    by simp
  have e: "length [2, - (200 / 51), 50 / 7, - (40 / 21), - (400 / 103), 800 / 99, - (300 / 107) :: real]
     = length [100, 102, 98, 105, 103, 99, 107, 104 :: real] - 1"
    by simp
  from p l s example_changes e show ?thesis
    by blast
qed

end
